theory Spec2Isabelle
  imports Complex_Main "HOL-Library.Sublist" "HOL-Library.AList"
begin

section \<open>The browser and the file system, as the crawler sees them\<close>

text \<open>
  Both programs of the repository (\<^verbatim>\<open>src/app.ts\<close> and its later revision, which
  adds null checks) drive one Puppeteer page and write CSV files. The browser, the site
  and the file system are outside the repository, so they are a parameter: a record of
  functions over a state \<open>'w\<close> of the outside world and element handles \<open>'h\<close>.

  \<^item> \<open>query w scope sel\<close> is \<^verbatim>\<open>querySelectorAll(sel)\<close> in document order, on the page
    (\<open>scope = None\<close>) or below an element handle;
  \<^item> \<open>textContent\<close> and \<open>getAttribute\<close> return \<open>None\<close> for JavaScript's \<^verbatim>\<open>null\<close>;
  \<^item> every action returns the next state, or \<open>None\<close> when the call rejects (a timeout,
    a detached node, a missing directory);
  \<^item> \<open>writeFileSync path rows\<close> is the serializer of the \<^verbatim>\<open>csv\<close> package followed by
    \<^verbatim>\<open>fs.writeFileSync\<close>: the records, one row of three cells each, are turned into text
    with a header row and written to \<open>path\<close>. \<^verbatim>\<open>app.ts\<close> reaches the serializer as
    \<^verbatim>\<open>stringify\<close> and the revision as \<^verbatim>\<open>stringify.default\<close>; they are taken to be the same
    function of the package.
\<close>

record ('w, 'h) env =
  launch :: "'w \<Rightarrow> 'w option"
  newPage :: "'w \<Rightarrow> 'w option"
  goto :: "string \<Rightarrow> 'w \<Rightarrow> 'w option"
  query :: "'w \<Rightarrow> 'h option \<Rightarrow> string \<Rightarrow> 'h list"
  textContent :: "'w \<Rightarrow> 'h \<Rightarrow> string option"
  getAttribute :: "'w \<Rightarrow> 'h \<Rightarrow> string \<Rightarrow> string option"
  click :: "'h \<Rightarrow> 'w \<Rightarrow> 'w option"
  select :: "'h \<Rightarrow> string \<Rightarrow> 'w \<Rightarrow> 'w option"
  waitForSelector :: "string \<Rightarrow> 'w \<Rightarrow> 'w option"
  waitForTimeout :: "nat \<Rightarrow> 'w \<Rightarrow> 'w option"
  writeFileSync :: "string \<Rightarrow> string option list list \<Rightarrow> 'w \<Rightarrow> 'w option"
  close :: "'w \<Rightarrow> 'w option"

text \<open>
  The errors of a run. The first eight are the \<^verbatim>\<open>throw new Error(...)\<close> statements of the
  revised program, named after their (Japanese) messages; the others are raised by
  JavaScript or Puppeteer.
\<close>

datatype error =
    PrefNameError           \<comment> \<open>"failed to get the prefecture name"\<close>
  | GenreNameError          \<comment> \<open>"failed to get the genre name"\<close>
  | MerchantNameError       \<comment> \<open>"failed to get the merchant name"\<close>
  | AddressError            \<comment> \<open>"failed to get the address"\<close>
  | PrefLinkError           \<comment> \<open>the empty message thrown for a missing expansion link\<close>
  | GenreElementError       \<comment> \<open>"failed to get the genre element"\<close>
  | SearchResultError       \<comment> \<open>"failed to get the search result"\<close>
  | NextPrefLinkError       \<comment> \<open>"failed to get the link of the next prefecture"\<close>
  | TypeError               \<comment> \<open>a property read on \<^verbatim>\<open>null\<close> or \<^verbatim>\<open>undefined\<close>\<close>
  | NoElement string        \<comment> \<open>\<^verbatim>\<open>$eval\<close>, \<^verbatim>\<open>page.click\<close>, \<^verbatim>\<open>page.select\<close>: no node for the selector\<close>
  | LaunchFailed
  | NavigationFailed string
  | ClickFailed
  | SelectFailed string
  | WaitFailed string
  | TimeoutFailed
  | WriteFailed string
  | CloseFailed

text \<open>The actions that completed, in order: the trace of a run.\<close>

datatype 'h event =
    Launch
  | NewPage
  | Goto string
  | PageClick string                \<comment> \<open>\<^verbatim>\<open>page.click(selector)\<close>\<close>
  | HandleClick 'h                  \<comment> \<open>\<^verbatim>\<open>elementHandle.click()\<close>\<close>
  | PageSelect string string        \<comment> \<open>\<^verbatim>\<open>page.select(selector, value)\<close>\<close>
  | WaitForSelector string
  | WaitForTimeout nat
  | WriteFile string "string option list list"
  | Close

type_synonym ('w, 'h) state = "'w \<times> 'h event list"

subsection \<open>Sequencing\<close>

definition and_then ::
  "('s \<Rightarrow> (error + 'a) \<times> 's) \<Rightarrow> ('a \<Rightarrow> 's \<Rightarrow> (error + 'b) \<times> 's) \<Rightarrow> 's \<Rightarrow> (error + 'b) \<times> 's" where
  "and_then m f s = (case m s of (Inl e, s') \<Rightarrow> (Inl e, s') | (Inr x, s') \<Rightarrow> f x s')"

definition and_run ::
  "('s \<Rightarrow> (error + 'a) \<times> 's) \<Rightarrow> ('a \<Rightarrow> 's \<Rightarrow> ((error + 'b) \<times> 's) option) \<Rightarrow>
   's \<Rightarrow> ((error + 'b) \<times> 's) option" where
  "and_run m f s = (case m s of (Inl e, s') \<Rightarrow> Some (Inl e, s') | (Inr x, s') \<Rightarrow> f x s')"

definition run_then ::
  "('s \<Rightarrow> ((error + 'a) \<times> 's) option) \<Rightarrow> ('a \<Rightarrow> 's \<Rightarrow> ((error + 'b) \<times> 's) option) \<Rightarrow>
   's \<Rightarrow> ((error + 'b) \<times> 's) option" where
  "run_then m f s =
     (case m s of None \<Rightarrow> None | Some (Inl e, s') \<Rightarrow> Some (Inl e, s') | Some (Inr x, s') \<Rightarrow> f x s')"

definition reading :: "('w \<Rightarrow> error + 'a) \<Rightarrow> ('w, 'h) state \<Rightarrow> (error + 'a) \<times> ('w, 'h) state" where
  "reading f s = (f (fst s), s)"

definition action ::
  "('w \<Rightarrow> 'w option) \<Rightarrow> error \<Rightarrow> 'h event \<Rightarrow> ('w, 'h) state \<Rightarrow> (error + unit) \<times> ('w, 'h) state" where
  "action f err ev s =
     (case f (fst s) of None \<Rightarrow> (Inl err, s) | Some w' \<Rightarrow> (Inr (), (w', snd s @ [ev])))"

subsection \<open>Puppeteer's queries\<close>

definition query_first :: "('w, 'h) env \<Rightarrow> 'w \<Rightarrow> 'h option \<Rightarrow> string \<Rightarrow> 'h option" where
  \<comment> \<open>\<^verbatim>\<open>$(selector)\<close>: the first match or \<^verbatim>\<open>null\<close>\<close>
  "query_first env w scope sel = (case query env w scope sel of [] \<Rightarrow> None | h # _ \<Rightarrow> Some h)"

definition eval_first :: "('w, 'h) env \<Rightarrow> 'w \<Rightarrow> 'h option \<Rightarrow> string \<Rightarrow> ('h \<Rightarrow> 'a) \<Rightarrow> error + 'a" where
  \<comment> \<open>\<^verbatim>\<open>$eval(selector, f)\<close>: rejects when nothing matches\<close>
  "eval_first env w scope sel f =
     (case query_first env w scope sel of None \<Rightarrow> Inl (NoElement sel) | Some h \<Rightarrow> Inr (f h))"

definition page_click :: "('w, 'h) env \<Rightarrow> string \<Rightarrow> ('w, 'h) state \<Rightarrow> (error + unit) \<times> ('w, 'h) state" where
  "page_click env sel s =
     (case query_first env (fst s) None sel of
        None \<Rightarrow> (Inl (NoElement sel), s)
      | Some h \<Rightarrow> action (click env h) ClickFailed (PageClick sel) s)"

definition handle_click :: "('w, 'h) env \<Rightarrow> 'h \<Rightarrow> ('w, 'h) state \<Rightarrow> (error + unit) \<times> ('w, 'h) state" where
  "handle_click env h = action (click env h) ClickFailed (HandleClick h)"

definition page_select ::
  "('w, 'h) env \<Rightarrow> string \<Rightarrow> string \<Rightarrow> ('w, 'h) state \<Rightarrow> (error + unit) \<times> ('w, 'h) state" where
  "page_select env sel v s =
     (case query_first env (fst s) None sel of
        None \<Rightarrow> (Inl (NoElement sel), s)
      | Some h \<Rightarrow> action (select env h v) (SelectFailed sel) (PageSelect sel v) s)"

definition wait_for_selector ::
  "('w, 'h) env \<Rightarrow> string \<Rightarrow> ('w, 'h) state \<Rightarrow> (error + unit) \<times> ('w, 'h) state" where
  "wait_for_selector env sel = action (waitForSelector env sel) (WaitFailed sel) (WaitForSelector sel)"

definition wait_for_timeout ::
  "('w, 'h) env \<Rightarrow> nat \<Rightarrow> ('w, 'h) state \<Rightarrow> (error + unit) \<times> ('w, 'h) state" where
  "wait_for_timeout env ms = action (waitForTimeout env ms) TimeoutFailed (WaitForTimeout ms)"

section \<open>JavaScript's \<^verbatim>\<open>Number(text)\<close>\<close>

text \<open>
  Both programs turn the text of the highlighted pagination control into a number with
  \<^verbatim>\<open>Number(item.textContent)\<close>. The conversion never throws: \<^verbatim>\<open>null\<close> and blank text
  give 0, a numeric literal (decimal with optional sign, fraction and exponent,
  \<^verbatim>\<open>Infinity\<close>, or an unsigned \<^verbatim>\<open>0x\<close>/\<^verbatim>\<open>0o\<close>/\<^verbatim>\<open>0b\<close> integer) surrounded by white space
  gives its value, everything else gives \<^verbatim>\<open>NaN\<close>. \<open>Num q\<close> holds the mathematical value
  of the literal; its rounding to a double and the sign of zero are left out. Text is
  UTF-8, so the white space beyond ASCII is written as byte sequences.
\<close>

datatype js_number = NaN | Num rat | PosInfinity | NegInfinity

definition white_space :: "string list" where
  "white_space =
     [[CHR 0x09], [CHR 0x0A], [CHR 0x0B], [CHR 0x0C], [CHR 0x0D], [CHR 0x20],
      [CHR 0xC2, CHR 0xA0], [CHR 0xE1, CHR 0x9A, CHR 0x80],
      [CHR 0xE2, CHR 0x80, CHR 0x80], [CHR 0xE2, CHR 0x80, CHR 0x81],
      [CHR 0xE2, CHR 0x80, CHR 0x82], [CHR 0xE2, CHR 0x80, CHR 0x83],
      [CHR 0xE2, CHR 0x80, CHR 0x84], [CHR 0xE2, CHR 0x80, CHR 0x85],
      [CHR 0xE2, CHR 0x80, CHR 0x86], [CHR 0xE2, CHR 0x80, CHR 0x87],
      [CHR 0xE2, CHR 0x80, CHR 0x88], [CHR 0xE2, CHR 0x80, CHR 0x89],
      [CHR 0xE2, CHR 0x80, CHR 0x8A], [CHR 0xE2, CHR 0x80, CHR 0xA8],
      [CHR 0xE2, CHR 0x80, CHR 0xA9], [CHR 0xE2, CHR 0x80, CHR 0xAF],
      [CHR 0xE2, CHR 0x81, CHR 0x9F], [CHR 0xE3, CHR 0x80, CHR 0x80],
      [CHR 0xEF, CHR 0xBB, CHR 0xBF]]"

definition white_prefix :: "string \<Rightarrow> nat" where
  "white_prefix s = (case find (\<lambda>p. prefix p s) white_space of None \<Rightarrow> 0 | Some p \<Rightarrow> length p)"

function skip_white :: "string \<Rightarrow> string" where
  "skip_white s = (if white_prefix s = 0 then s else skip_white (drop (white_prefix s) s))"
  by pat_completeness auto
termination
proof (relation "measure length")
  fix s :: string
  assume w: "white_prefix s \<noteq> 0"
  then have "s \<noteq> []"
    by (auto simp: white_prefix_def white_space_def split: option.splits)
  with w show "(drop (white_prefix s) s, s) \<in> measure length"
    by simp
qed simp

declare skip_white.simps [simp del]

definition white_suffix :: "string \<Rightarrow> nat" where
  "white_suffix s = (case find (\<lambda>p. suffix p s) white_space of None \<Rightarrow> 0 | Some p \<Rightarrow> length p)"

function drop_white_end :: "string \<Rightarrow> string" where
  "drop_white_end s =
     (if white_suffix s = 0 then s else drop_white_end (take (length s - white_suffix s) s))"
  by pat_completeness auto
termination
proof (relation "measure length")
  fix s :: string
  assume w: "white_suffix s \<noteq> 0"
  then have "s \<noteq> []"
    by (auto simp: white_suffix_def white_space_def split: option.splits)
  with w show "(take (length s - white_suffix s) s, s) \<in> measure length"
    by simp
qed simp

declare drop_white_end.simps [simp del]

definition trim :: "string \<Rightarrow> string" where
  \<comment> \<open>\<^verbatim>\<open>String.prototype.trim\<close>\<close>
  "trim s = drop_white_end (skip_white s)"

definition is_digit :: "char \<Rightarrow> bool" where
  "is_digit c = (c \<in> set ''0123456789'')"

definition is_hex_digit :: "char \<Rightarrow> bool" where
  "is_hex_digit c = (c \<in> set ''0123456789abcdefABCDEF'')"

definition digit_value :: "char \<Rightarrow> nat" where
  "digit_value c =
     (let n = (of_char c :: nat)
      in if n < 58 then n - 48 else if n < 71 then n - 55 else n - 87)"

definition radix_value :: "nat \<Rightarrow> string \<Rightarrow> nat" where
  "radix_value b ds = foldl (\<lambda>a c. a * b + digit_value c) 0 ds"

definition non_decimal :: "string \<Rightarrow> (js_number \<times> string) option" where
  \<comment> \<open>\<^verbatim>\<open>0x\<close>, \<^verbatim>\<open>0o\<close>, \<^verbatim>\<open>0b\<close> (either case) followed by at least one digit of the radix\<close>
  "non_decimal s =
     (case s of
        z # x # t \<Rightarrow>
          (let (b, ok) =
                 (if x \<in> set ''xX'' then (16, is_hex_digit)
                  else if x \<in> set ''oO'' then (8, \<lambda>c. c \<in> set ''01234567'')
                  else if x \<in> set ''bB'' then (2, \<lambda>c. c \<in> set ''01'')
                  else (0, \<lambda>c. False))
           in if z = CHR ''0'' \<and> takeWhile ok t \<noteq> []
              then Some (Num (of_nat (radix_value b (takeWhile ok t))), dropWhile ok t)
              else None)
      | _ \<Rightarrow> None)"

definition exponent_part :: "string \<Rightarrow> int \<times> string" where
  \<comment> \<open>\<^verbatim>\<open>e\<close> or \<^verbatim>\<open>E\<close>, an optional sign, at least one digit; otherwise nothing is consumed\<close>
  "exponent_part s =
     (case s of
        e # t \<Rightarrow>
          (if e \<in> set ''eE'' then
             (let (neg, u) = (case t of
                                c # v \<Rightarrow> if c = CHR ''-'' then (True, v)
                                         else if c = CHR ''+'' then (False, v) else (False, t)
                              | [] \<Rightarrow> (False, t));
                  ds = takeWhile is_digit u
              in if ds = [] then (0, s)
                 else ((if neg then - int (radix_value 10 ds) else int (radix_value 10 ds)),
                       dropWhile is_digit u))
           else (0, s))
      | [] \<Rightarrow> (0, s))"

definition unsigned_decimal :: "string \<Rightarrow> (rat option \<times> string) option" where
  \<comment> \<open>\<^verbatim>\<open>Infinity\<close> (value \<open>None\<close>), or digits with an optional fraction and exponent\<close>
  "unsigned_decimal s =
     (if prefix ''Infinity'' s then Some (None, drop 8 s)
      else
        (let ip = takeWhile is_digit s; r1 = dropWhile is_digit s;
             (fp, r2) = (case r1 of
                           c # t \<Rightarrow> if c = CHR ''.'' \<and> (ip \<noteq> [] \<or> takeWhile is_digit t \<noteq> [])
                                    then (takeWhile is_digit t, dropWhile is_digit t)
                                    else ([], r1)
                         | [] \<Rightarrow> ([], r1))
         in if ip = [] \<and> fp = [] then None
            else
              (let (ex, r3) = exponent_part r2;
                   m = of_nat (radix_value 10 ip) + of_nat (radix_value 10 fp) / 10 ^ length fp
               in Some (Some (if ex < 0 then m / 10 ^ nat (- ex) else m * 10 ^ nat ex), r3))))"

definition numeric_literal :: "string \<Rightarrow> (js_number \<times> string) option" where
  "numeric_literal s =
     (case non_decimal s of
        Some r \<Rightarrow> Some r
      | None \<Rightarrow>
          (let (neg, u) = (case s of
                             c # v \<Rightarrow> if c = CHR ''-'' then (True, v)
                                      else if c = CHR ''+'' then (False, v) else (False, s)
                           | [] \<Rightarrow> (False, s))
           in case unsigned_decimal u of
                None \<Rightarrow> None
              | Some (None, r) \<Rightarrow> Some (if neg then NegInfinity else PosInfinity, r)
              | Some (Some q, r) \<Rightarrow> Some (Num (if neg then - q else q), r)))"

definition Number :: "string option \<Rightarrow> js_number" where
  "Number text =
     (case text of
        None \<Rightarrow> Num 0
      | Some s \<Rightarrow>
          (let t = skip_white s
           in if t = [] then Num 0
              else case numeric_literal t of
                     None \<Rightarrow> NaN
                   | Some (v, r) \<Rightarrow> if skip_white r = [] then v else NaN))"

section \<open>The records and what both programs share\<close>

text \<open>
  \<^verbatim>\<open>Store\<close> (\<^verbatim>\<open>app.ts\<close>) and \<^verbatim>\<open>Merchant\<close> (the revision) both declare three \<^verbatim>\<open>string\<close>
  fields. \<^verbatim>\<open>app.ts\<close> stores whatever \<^verbatim>\<open>textContent\<close> and \<^verbatim>\<open>getAttribute\<close> return, which
  can be \<^verbatim>\<open>null\<close> at run time, so its fields are optional here; the revision stores a
  field only after its null check.
\<close>

record store =
  name :: "string option"
  address :: "string option"
  genre :: "string option"

record merchant =
  name :: string
  address :: string
  genre :: string

definition store_row :: "store \<Rightarrow> string option list" where
  "store_row r = [store.name r, store.address r, store.genre r]"

definition merchant_row :: "merchant \<Rightarrow> string option list" where
  "merchant_row r = [Some (name r), Some (address r), Some (genre r)]"

definition template_text :: "string option \<Rightarrow> string" where
  \<comment> \<open>a value inside a template literal: \<^verbatim>\<open>null\<close> prints as the word\<close>
  "template_text v = (case v of None \<Rightarrow> ''null'' | Some t \<Rightarrow> t)"

fun promise_all :: "(error + 'a) list \<Rightarrow> error + 'a list" where
  \<comment> \<open>\<^verbatim>\<open>Promise.all\<close> over reads of one page state: every result, or an error. The reads
      run concurrently; the model reports the error of the first failing element.\<close>
  "promise_all [] = Inr []"
| "promise_all (Inl e # rs) = Inl e"
| "promise_all (Inr x # rs) = (case promise_all rs of Inl e \<Rightarrow> Inl e | Inr xs \<Rightarrow> Inr (x # xs))"

definition index :: "'a list \<Rightarrow> nat \<Rightarrow> 'a option" where
  \<comment> \<open>\<^verbatim>\<open>xs[n]\<close>: \<^verbatim>\<open>undefined\<close> out of range\<close>
  "index xs n = (if n < length xs then Some (xs ! n) else None)"

definition csv_path :: "string \<Rightarrow> string \<Rightarrow> string" where
  "csv_path prefName genreName = ''./dist/'' @ prefName @ ''-'' @ genreName @ ''.csv''"

definition pref_link :: string where
  \<open>pref_link = ''a[href="javascript:;"]''\<close>

definition posts_per_page :: string where
  \<open>posts_per_page = ''select[name="posts_per_page"]''\<close>

definition hasNextPageButton :: "('w, 'h) env \<Rightarrow> 'w \<Rightarrow> bool" where
  "hasNextPageButton env w = (query_first env w None ''#search_result_pagination li.next'' \<noteq> None)"

section \<open>The revised program\<close>

definition getPrefecturesName :: "('w, 'h) env \<Rightarrow> 'w \<Rightarrow> 'h option \<Rightarrow> error + string" where
  "getPrefecturesName env w pref =
     (case pref of
        None \<Rightarrow> Inl TypeError
      | Some p \<Rightarrow>
          (case eval_first env w (Some p) ''input'' (\<lambda>input. getAttribute env w input ''data-label'') of
             Inl e \<Rightarrow> Inl e
           | Inr None \<Rightarrow> Inl PrefNameError
           | Inr (Some prefName) \<Rightarrow> Inr prefName))"

definition getNowPagination :: "('w, 'h) env \<Rightarrow> 'w \<Rightarrow> error + js_number" where
  "getNowPagination env w =
     eval_first env w None ''#search_result_pagination li.selected a''
       (\<lambda>item. Number (textContent env w item))"

definition searchResultNextPageToTransition ::
  "('w, 'h) env \<Rightarrow> ('w, 'h) state \<Rightarrow> (error + unit) \<times> ('w, 'h) state" where
  \<comment> \<open>the click and the wait are started together, the click first\<close>
  "searchResultNextPageToTransition env =
     and_then (page_click env ''#search_result_pagination li.next a'') (\<lambda>_.
     and_then (wait_for_selector env ''#search_result_lists'') (\<lambda>_.
     wait_for_timeout env 3000))"

definition getGenreElementHandles :: "('w, 'h) env \<Rightarrow> 'w \<Rightarrow> 'h list" where
  "getGenreElementHandles env w = query env w None ''#genre_list ul li''"

definition getGenreName :: "('w, 'h) env \<Rightarrow> 'w \<Rightarrow> 'h \<Rightarrow> error + string" where
  "getGenreName env w genreEl =
     (case eval_first env w (Some genreEl) ''input'' (\<lambda>input. getAttribute env w input ''data-label'') of
        Inl e \<Rightarrow> Inl e
      | Inr None \<Rightarrow> Inl GenreNameError
      | Inr (Some genreName) \<Rightarrow> Inr genreName)"

definition convertDetailToMerchantObj :: "('w, 'h) env \<Rightarrow> 'w \<Rightarrow> 'h \<Rightarrow> string \<Rightarrow> error + merchant" where
  "convertDetailToMerchantObj env w detailEl g =
     (case eval_first env w (Some detailEl) ''h4'' (textContent env w) of
        Inl e \<Rightarrow> Inl e
      | Inr None \<Rightarrow> Inl MerchantNameError
      | Inr (Some n) \<Rightarrow>
          (case eval_first env w (Some detailEl) ''.search_result_lists_address'' (textContent env w) of
             Inl e \<Rightarrow> Inl e
           | Inr None \<Rightarrow> Inl AddressError
           | Inr (Some a) \<Rightarrow> Inr \<lparr>name = n, address = a, genre = g\<rparr>))"

definition pickedMerchants :: "('w, 'h) env \<Rightarrow> string \<Rightarrow> 'w \<Rightarrow> error + merchant list" where
  \<comment> \<open>the rows of the page on display, each converted\<close>
  "pickedMerchants env g w =
     promise_all (map (\<lambda>detail. convertDetailToMerchantObj env w detail g)
       (query env w None ''#search_result_lists .search_result_lists_details''))"

definition getMerchant_body ::
  "('w, 'h) env \<Rightarrow> string \<Rightarrow> merchant list \<Rightarrow> ('w, 'h) state \<Rightarrow>
   (error + merchant list \<times> bool) \<times> ('w, 'h) state" where
  \<comment> \<open>one pass of the \<^verbatim>\<open>while\<close> loop: the new accumulator and the new \<^verbatim>\<open>hasNextPage\<close>\<close>
  "getMerchant_body env g merchants =
     and_then (reading (getNowPagination env)) (\<lambda>pageNumber.
     and_then (reading (pickedMerchants env g)) (\<lambda>picked s.
       if hasNextPageButton env (fst s)
       then and_then (searchResultNextPageToTransition env) (\<lambda>_ s'. (Inr (merchants @ picked, True), s')) s
       else (Inr (merchants @ picked, False), s)))"

partial_function (option) getMerchant_while ::
  "('w, 'h) env \<Rightarrow> string \<Rightarrow> bool \<Rightarrow> merchant list \<Rightarrow> ('w, 'h) state \<Rightarrow>
   ((error + merchant list) \<times> ('w, 'h) state) option" where
  "getMerchant_while env g hasNextPage merchants s =
     (if hasNextPage
      then (case getMerchant_body env g merchants s of
              (Inl e, s') \<Rightarrow> Some (Inl e, s')
            | (Inr (merchants', hasNextPage'), s') \<Rightarrow> getMerchant_while env g hasNextPage' merchants' s')
      else Some (Inr merchants, s))"

definition getMerchantFromSearchResult ::
  "('w, 'h) env \<Rightarrow> string \<Rightarrow> ('w, 'h) state \<Rightarrow> ((error + merchant list) \<times> ('w, 'h) state) option" where
  "getMerchantFromSearchResult env g =
     and_run (reading (getNowPagination env)) (\<lambda>pageNumber.
     getMerchant_while env g True [])"

definition saveMerchantsToCSVFile ::
  "('w, 'h) env \<Rightarrow> merchant list \<Rightarrow> string \<Rightarrow> string \<Rightarrow> ('w, 'h) state \<Rightarrow>
   (error + unit) \<times> ('w, 'h) state" where
  "saveMerchantsToCSVFile env merchants prefName genreName =
     action (writeFileSync env (csv_path prefName genreName) (map merchant_row merchants))
       (WriteFailed (csv_path prefName genreName))
       (WriteFile (csv_path prefName genreName) (map merchant_row merchants))"

text \<open>
  \<^verbatim>\<open>Promise.all([a, b])\<close> over two actions is modelled as \<open>a\<close> then \<open>b\<close>, the order in
  which the calls are written and issued. \<^verbatim>\<open>console.log\<close> is left out: it cannot fail
  and nothing reads it back; the reads made only for it are kept, since they can fail.
\<close>

definition createMaps_search ::
  "('w, 'h) env \<Rightarrow> 'h \<Rightarrow> ('w, 'h) state \<Rightarrow> (error + string \<times> 'h) \<times> ('w, 'h) state" where
  \<comment> \<open>a pass of the \<^verbatim>\<open>for\<close> loop up to the search result: \<^verbatim>\<open>genreName\<close> and \<^verbatim>\<open>genreSelect\<close>\<close>
  "createMaps_search env genreHandle =
     and_then (reading (\<lambda>w. getGenreName env w genreHandle)) (\<lambda>genreName.
     and_then (reading (\<lambda>w. case query_first env w (Some genreHandle) ''a'' of
                               None \<Rightarrow> Inl GenreElementError
                             | Some genreSelect \<Rightarrow> Inr genreSelect)) (\<lambda>genreSelect.
     and_then (handle_click env genreSelect) (\<lambda>_.
     and_then (wait_for_timeout env 3000) (\<lambda>_.
     and_then (wait_for_selector env ''#search_result_lists'') (\<lambda>_.
     and_then (page_click env ''#search_submit_basic'') (\<lambda>_.
     and_then (wait_for_timeout env 3000) (\<lambda>_.
     and_then (page_select env posts_per_page ''100'') (\<lambda>_.
     and_then (wait_for_timeout env 3000) (\<lambda>_.
     and_then (reading (\<lambda>w. case eval_first env w None ''#search_result_text'' (textContent env w) of
                               Inl e \<Rightarrow> Inl e
                             | Inr None \<Rightarrow> Inl SearchResultError
                             | Inr (Some t) \<Rightarrow> Inr (trim t))) (\<lambda>searchResult s.
     (Inr (genreName, genreSelect), s)))))))))))"

definition createMaps_body ::
  "('w, 'h) env \<Rightarrow> string \<Rightarrow> 'h \<Rightarrow> merchant list \<Rightarrow> ('w, 'h) state \<Rightarrow>
   ((error + merchant list) \<times> ('w, 'h) state) option" where
  \<comment> \<open>one pass of the \<^verbatim>\<open>for\<close> loop over the genres: the new \<^verbatim>\<open>prefMerchants\<close>\<close>
  "createMaps_body env prefecturesName genreHandle prefMerchants =
     and_run (createMaps_search env genreHandle) (\<lambda>(genreName, genreSelect).
     run_then (getMerchantFromSearchResult env genreName) (\<lambda>merchants.
     and_run (saveMerchantsToCSVFile env merchants prefecturesName genreName) (\<lambda>_.
     and_run (handle_click env genreSelect) (\<lambda>_ s.
     Some (Inr (prefMerchants @ merchants), s)))))"

fun createMaps_for ::
  "('w, 'h) env \<Rightarrow> string \<Rightarrow> 'h list \<Rightarrow> merchant list \<Rightarrow> ('w, 'h) state \<Rightarrow>
   ((error + merchant list) \<times> ('w, 'h) state) option" where
  "createMaps_for env prefecturesName [] prefMerchants s = Some (Inr prefMerchants, s)"
| "createMaps_for env prefecturesName (genreHandle # genreHandles) prefMerchants s =
     run_then (createMaps_body env prefecturesName genreHandle prefMerchants)
       (createMaps_for env prefecturesName genreHandles) s"

definition createMaps_begin ::
  "('w, 'h) env \<Rightarrow> 'h option \<Rightarrow> ('w, 'h) state \<Rightarrow> (error + string) \<times> ('w, 'h) state" where
  \<comment> \<open>\<^verbatim>\<open>createMaps\<close> up to the genre loop; \<open>pref\<close> is \<open>None\<close> when the caller passes
      \<^verbatim>\<open>undefined\<close>\<close>
  "createMaps_begin env pref =
     and_then (reading (\<lambda>w. getPrefecturesName env w pref)) (\<lambda>prefecturesName.
     and_then (reading (\<lambda>w. case pref of
                               None \<Rightarrow> Inl TypeError
                             | Some p \<Rightarrow> (case query_first env w (Some p) pref_link of
                                           None \<Rightarrow> Inl PrefLinkError
                                         | Some el \<Rightarrow> Inr el))) (\<lambda>el.
     and_then (handle_click env el) (\<lambda>_.
     and_then (wait_for_timeout env 3000) (\<lambda>_ s.
     (Inr prefecturesName, s)))))"

definition createMaps_end ::
  "('w, 'h) env \<Rightarrow> string \<Rightarrow> merchant list \<Rightarrow> ('w, 'h) state \<Rightarrow> (error + unit) \<times> ('w, 'h) state" where
  \<comment> \<open>\<^verbatim>\<open>createMaps\<close> after the genre loop\<close>
  "createMaps_end env prefecturesName prefMerchants =
     and_then (saveMerchantsToCSVFile env prefMerchants prefecturesName ''all'') (\<lambda>_.
     and_then (reading (\<lambda>w. case query_first env w None ''.area_city_list .common_search_nav a'' of
                               None \<Rightarrow> Inl NextPrefLinkError
                             | Some nextPrefLink \<Rightarrow> Inr nextPrefLink)) (\<lambda>nextPrefLink.
     handle_click env nextPrefLink))"

definition createMaps ::
  "('w, 'h) env \<Rightarrow> 'h option \<Rightarrow> ('w, 'h) state \<Rightarrow> ((error + unit) \<times> ('w, 'h) state) option" where
  "createMaps env pref =
     and_run (createMaps_begin env pref) (\<lambda>prefecturesName s.
     run_then (createMaps_for env prefecturesName (getGenreElementHandles env (fst s)) [])
       (\<lambda>prefMerchants s'. Some (createMaps_end env prefecturesName prefMerchants s')) s)"

fun main_for ::
  "('w, 'h) env \<Rightarrow> 'h option list \<Rightarrow> ('w, 'h) state \<Rightarrow> ((error + unit) \<times> ('w, 'h) state) option" where
  "main_for env [] s = Some (Inr (), s)"
| "main_for env (pref # selectedPrefs) s =
     run_then (createMaps env pref) (\<lambda>_. main_for env selectedPrefs) s"

definition main :: "('w, 'h) env \<Rightarrow> ('w, 'h) state \<Rightarrow> ((error + unit) \<times> ('w, 'h) state) option" where
  "main env =
     and_run (action (launch env) LaunchFailed Launch) (\<lambda>_.
     and_run (action (newPage env) LaunchFailed NewPage) (\<lambda>_.
     and_run (action (goto env ''https://www.jfcard.co.jp/shopinfo/use.php'')
                (NavigationFailed ''https://www.jfcard.co.jp/shopinfo/use.php'')
                (Goto ''https://www.jfcard.co.jp/shopinfo/use.php'')) (\<lambda>_ s.
     run_then
       (main_for env (map (index (query env (fst s) None ''.area_list.area_pref_list ul li ul li'')) [17]))
       (\<lambda>_ s'. Some (action (close env) CloseFailed Close s')) s)))"

section \<open>\<^verbatim>\<open>app.ts\<close>\<close>

definition pickCurrentPageNumber :: "('w, 'h) env \<Rightarrow> 'w \<Rightarrow> error + js_number" where
  "pickCurrentPageNumber env w =
     eval_first env w None ''#search_result_pagination li.selected a''
       (\<lambda>item. Number (textContent env w item))"

definition clickNextPageButton ::
  "('w, 'h) env \<Rightarrow> ('w, 'h) state \<Rightarrow> (error + unit) \<times> ('w, 'h) state" where
  "clickNextPageButton env = page_click env ''#search_result_pagination li.next a''"

definition detailToStoreObj :: "('w, 'h) env \<Rightarrow> 'w \<Rightarrow> 'h \<Rightarrow> string option \<Rightarrow> error + store" where
  "detailToStoreObj env w detailEl g =
     (case eval_first env w (Some detailEl) ''h4'' (textContent env w) of
        Inl e \<Rightarrow> Inl e
      | Inr n \<Rightarrow>
          (case eval_first env w (Some detailEl) ''.search_result_lists_address'' (textContent env w) of
             Inl e \<Rightarrow> Inl e
           | Inr a \<Rightarrow> Inr \<lparr>store.name = n, store.address = a, store.genre = g\<rparr>))"

definition pickedStores :: "('w, 'h) env \<Rightarrow> string option \<Rightarrow> 'w \<Rightarrow> error + store list" where
  "pickedStores env g w =
     promise_all (map (\<lambda>detail. detailToStoreObj env w detail g)
       (query env w None ''#search_result_lists .search_result_lists_details''))"

definition pickStores_body ::
  "('w, 'h) env \<Rightarrow> string option \<Rightarrow> store list \<Rightarrow> ('w, 'h) state \<Rightarrow>
   (error + store list \<times> bool) \<times> ('w, 'h) state" where
  "pickStores_body env g stores =
     and_then (reading (pickCurrentPageNumber env)) (\<lambda>pageNumber.
     and_then (reading (pickedStores env g)) (\<lambda>picked s.
       if hasNextPageButton env (fst s)
       then and_then (clickNextPageButton env) (\<lambda>_.
            and_then (wait_for_selector env ''#search_result_lists'') (\<lambda>_.
            and_then (wait_for_timeout env 3000) (\<lambda>_ s'.
            (Inr (stores @ picked, True), s')))) s
       else (Inr (stores @ picked, False), s)))"

partial_function (option) pickStores_while ::
  "('w, 'h) env \<Rightarrow> string option \<Rightarrow> bool \<Rightarrow> store list \<Rightarrow> ('w, 'h) state \<Rightarrow>
   ((error + store list) \<times> ('w, 'h) state) option" where
  "pickStores_while env g hasNextPage stores s =
     (if hasNextPage
      then (case pickStores_body env g stores s of
              (Inl e, s') \<Rightarrow> Some (Inl e, s')
            | (Inr (stores', hasNextPage'), s') \<Rightarrow> pickStores_while env g hasNextPage' stores' s')
      else Some (Inr stores, s))"

definition pickStores ::
  "('w, 'h) env \<Rightarrow> string option \<Rightarrow> ('w, 'h) state \<Rightarrow> ((error + store list) \<times> ('w, 'h) state) option" where
  "pickStores env g =
     and_run (reading (pickCurrentPageNumber env)) (\<lambda>pageNumber.
     pickStores_while env g True [])"

definition createCSVFile ::
  "('w, 'h) env \<Rightarrow> store list \<Rightarrow> string option \<Rightarrow> string option \<Rightarrow> ('w, 'h) state \<Rightarrow>
   (error + unit) \<times> ('w, 'h) state" where
  "createCSVFile env stores prefName genreName =
     action
       (writeFileSync env (csv_path (template_text prefName) (template_text genreName)) (map store_row stores))
       (WriteFailed (csv_path (template_text prefName) (template_text genreName)))
       (WriteFile (csv_path (template_text prefName) (template_text genreName)) (map store_row stores))"

definition createMaps_app_search ::
  "('w, 'h) env \<Rightarrow> 'h \<Rightarrow> ('w, 'h) state \<Rightarrow> (error + string option \<times> 'h) \<times> ('w, 'h) state" where
  "createMaps_app_search env g =
     and_then (reading (\<lambda>w. eval_first env w (Some g) ''input''
                               (\<lambda>input. getAttribute env w input ''data-label''))) (\<lambda>genreName.
     and_then (reading (\<lambda>w. case query_first env w (Some g) ''a'' of
                               None \<Rightarrow> Inl TypeError
                             | Some genreSelect \<Rightarrow> Inr genreSelect)) (\<lambda>genreSelect.
     and_then (handle_click env genreSelect) (\<lambda>_.
     and_then (wait_for_timeout env 3000) (\<lambda>_.
     and_then (wait_for_selector env ''#search_result_lists'') (\<lambda>_.
     and_then (page_click env ''#search_submit_basic'') (\<lambda>_.
     and_then (wait_for_timeout env 3000) (\<lambda>_.
     and_then (page_select env posts_per_page ''100'') (\<lambda>_.
     and_then (wait_for_timeout env 3000) (\<lambda>_.
     and_then (reading (\<lambda>w. eval_first env w None ''#search_result_text'' (textContent env w))) (\<lambda>searchResult s.
     (Inr (genreName, genreSelect), s)))))))))))"

definition createMaps_app_body ::
  "('w, 'h) env \<Rightarrow> string option \<Rightarrow> 'h \<Rightarrow> store list \<Rightarrow> ('w, 'h) state \<Rightarrow>
   ((error + store list) \<times> ('w, 'h) state) option" where
  "createMaps_app_body env prefName g prefStores =
     and_run (createMaps_app_search env g) (\<lambda>(genreName, genreSelect).
     run_then (pickStores env genreName) (\<lambda>stores.
     and_run (createCSVFile env stores prefName genreName) (\<lambda>_.
     and_run (handle_click env genreSelect) (\<lambda>_ s.
     Some (Inr (prefStores @ stores), s)))))"

fun createMaps_app_for ::
  "('w, 'h) env \<Rightarrow> string option \<Rightarrow> 'h list \<Rightarrow> store list \<Rightarrow> ('w, 'h) state \<Rightarrow>
   ((error + store list) \<times> ('w, 'h) state) option" where
  "createMaps_app_for env prefName [] prefStores s = Some (Inr prefStores, s)"
| "createMaps_app_for env prefName (g # genres) prefStores s =
     run_then (createMaps_app_body env prefName g prefStores)
       (createMaps_app_for env prefName genres) s"

definition createMaps_app_begin ::
  "('w, 'h) env \<Rightarrow> 'h option \<Rightarrow> ('w, 'h) state \<Rightarrow> (error + string option) \<times> ('w, 'h) state" where
  "createMaps_app_begin env pref =
     and_then (reading (\<lambda>w. case pref of
                               None \<Rightarrow> Inl TypeError
                             | Some p \<Rightarrow> eval_first env w (Some p) ''input''
                                          (\<lambda>input. getAttribute env w input ''data-label''))) (\<lambda>prefName.
     and_then (reading (\<lambda>w. case pref of
                               None \<Rightarrow> Inl TypeError
                             | Some p \<Rightarrow> (case query_first env w (Some p) pref_link of
                                           None \<Rightarrow> Inl TypeError
                                         | Some el \<Rightarrow> Inr el))) (\<lambda>el.
     and_then (handle_click env el) (\<lambda>_.
     and_then (wait_for_timeout env 3000) (\<lambda>_ s.
     (Inr prefName, s)))))"

definition createMaps_app_end ::
  "('w, 'h) env \<Rightarrow> string option \<Rightarrow> store list \<Rightarrow> ('w, 'h) state \<Rightarrow> (error + unit) \<times> ('w, 'h) state" where
  "createMaps_app_end env prefName prefStores =
     and_then (createCSVFile env prefStores prefName (Some ''all'')) (\<lambda>_.
     and_then (reading (\<lambda>w. case query_first env w None ''.area_city_list .common_search_nav a'' of
                               None \<Rightarrow> Inl TypeError
                             | Some el \<Rightarrow> Inr el)) (\<lambda>el.
     handle_click env el))"

definition createMaps_app ::
  "('w, 'h) env \<Rightarrow> 'h option \<Rightarrow> ('w, 'h) state \<Rightarrow> ((error + unit) \<times> ('w, 'h) state) option" where
  "createMaps_app env pref =
     and_run (createMaps_app_begin env pref) (\<lambda>prefName s.
     run_then (createMaps_app_for env prefName (query env (fst s) None ''#genre_list ul li'') [])
       (\<lambda>prefStores s'. Some (createMaps_app_end env prefName prefStores s')) s)"

fun main_app_for ::
  "('w, 'h) env \<Rightarrow> 'h option list \<Rightarrow> ('w, 'h) state \<Rightarrow> ((error + unit) \<times> ('w, 'h) state) option" where
  "main_app_for env [] s = Some (Inr (), s)"
| "main_app_for env (pref # selectedPrefs) s =
     run_then (createMaps_app env pref) (\<lambda>_. main_app_for env selectedPrefs) s"

definition main_app :: "('w, 'h) env \<Rightarrow> ('w, 'h) state \<Rightarrow> ((error + unit) \<times> ('w, 'h) state) option" where
  "main_app env =
     and_run (action (launch env) LaunchFailed Launch) (\<lambda>_.
     and_run (action (newPage env) LaunchFailed NewPage) (\<lambda>_.
     and_run (action (goto env ''https://www.jfcard.co.jp/shopinfo/use.php'')
                (NavigationFailed ''https://www.jfcard.co.jp/shopinfo/use.php'')
                (Goto ''https://www.jfcard.co.jp/shopinfo/use.php'')) (\<lambda>_ s.
     run_then
       (main_app_for env (map (index (query env (fst s) None ''.area_list.area_pref_list ul li ul li'')) [17]))
       (\<lambda>_ s'. Some (action (close env) CloseFailed Close s')) s)))"

section \<open>A small site to run the programs on\<close>

text \<open>
  An instance of the browser: a site with regions, categories and, for each category,
  pages of rows (title, address). Clicking a category link toggles it, the search lists
  the first toggled category at its first page, the "next" link turns the page, and
  written files are kept by path. \<open>nulls\<close> lists the nodes whose text or label reads as
  \<^verbatim>\<open>null\<close>, and \<open>more_regions\<close> says whether the link to the next region is shown.
\<close>

datatype node =
    Pref nat | PrefInput nat | PrefLink nat
  | Genre nat | GenreInput nat | GenreLink nat
  | SubmitButton | PerPage | ResultText
  | SelectedPage nat | NextItem | NextLink
  | Detail nat nat nat | Title nat nat nat | Address nat nat nat
  | NextPref

record site =
  regions :: "string list"
  categories :: "string list"
  listing :: "(string \<times> string) list list list"
  page_labels :: "string list"
  nulls :: "node list"
  more_regions :: bool

record browser =
  toggled :: "nat list"
  listed :: "nat option"
  pageno :: nat
  files :: "(string \<times> string option list list) list"

definition page_count :: "site \<Rightarrow> browser \<Rightarrow> nat" where
  "page_count c w = (case listed w of None \<Rightarrow> 0 | Some g \<Rightarrow> length (listing c ! g))"

definition site_query :: "site \<Rightarrow> browser \<Rightarrow> node option \<Rightarrow> string \<Rightarrow> node list" where
  "site_query c w scope sel =
     (case scope of
        None \<Rightarrow>
          (if sel = ''.area_list.area_pref_list ul li ul li'' then map Pref [0..<length (regions c)]
           else if sel = ''#genre_list ul li'' then map Genre [0..<length (categories c)]
           else if sel = ''#search_submit_basic'' then [SubmitButton]
           else if sel = posts_per_page then [PerPage]
           else if sel = ''#search_result_text'' then [ResultText]
           else if sel = ''#search_result_pagination li.selected a''
             then (if pageno w < length (page_labels c) then [SelectedPage (pageno w)] else [])
           else if sel = ''#search_result_pagination li.next''
             then (if Suc (pageno w) < page_count c w then [NextItem] else [])
           else if sel = ''#search_result_pagination li.next a''
             then (if Suc (pageno w) < page_count c w then [NextLink] else [])
           else if sel = ''#search_result_lists .search_result_lists_details''
             then (case listed w of
                     None \<Rightarrow> []
                   | Some g \<Rightarrow> map (Detail g (pageno w)) [0..<length (listing c ! g ! pageno w)])
           else if sel = ''.area_city_list .common_search_nav a''
             then (if more_regions c then [NextPref] else [])
           else [])
      | Some (Pref i) \<Rightarrow>
          (if sel = ''input'' then [PrefInput i] else if sel = pref_link then [PrefLink i] else [])
      | Some (Genre j) \<Rightarrow>
          (if sel = ''input'' then [GenreInput j] else if sel = ''a'' then [GenreLink j] else [])
      | Some (Detail g p k) \<Rightarrow>
          (if sel = ''h4'' then [Title g p k]
           else if sel = ''.search_result_lists_address'' then [Address g p k] else [])
      | Some _ \<Rightarrow> [])"

definition site_text :: "site \<Rightarrow> browser \<Rightarrow> node \<Rightarrow> string option" where
  "site_text c w h =
     (if h \<in> set (nulls c) then None
      else Some (case h of
                   Title g p k \<Rightarrow> fst (listing c ! g ! p ! k)
                 | Address g p k \<Rightarrow> snd (listing c ! g ! p ! k)
                 | SelectedPage p \<Rightarrow> page_labels c ! p
                 | ResultText \<Rightarrow> '' results ''
                 | _ \<Rightarrow> []))"

definition site_attribute :: "site \<Rightarrow> browser \<Rightarrow> node \<Rightarrow> string \<Rightarrow> string option" where
  "site_attribute c w h a =
     (if h \<in> set (nulls c) \<or> a \<noteq> ''data-label'' then None
      else Some (case h of
                   PrefInput i \<Rightarrow> regions c ! i
                 | GenreInput j \<Rightarrow> categories c ! j
                 | _ \<Rightarrow> []))"

definition site_click :: "node \<Rightarrow> browser \<Rightarrow> browser option" where
  "site_click h w =
     (case h of
        GenreLink j \<Rightarrow>
          Some (w\<lparr>toggled := (if j \<in> set (toggled w) then removeAll j (toggled w) else toggled w @ [j])\<rparr>)
      | SubmitButton \<Rightarrow>
          Some (w\<lparr>listed := (case toggled w of [] \<Rightarrow> None | j # _ \<Rightarrow> Some j), pageno := 0\<rparr>)
      | NextLink \<Rightarrow> Some (w\<lparr>pageno := Suc (pageno w)\<rparr>)
      | _ \<Rightarrow> Some w)"

definition site_env :: "site \<Rightarrow> (browser, node) env" where
  "site_env c =
     \<lparr>launch = Some, newPage = Some, goto = (\<lambda>url. Some),
      query = site_query c, textContent = site_text c, getAttribute = site_attribute c,
      click = site_click, select = (\<lambda>h v. Some),
      waitForSelector = (\<lambda>sel. Some), waitForTimeout = (\<lambda>ms. Some),
      writeFileSync = (\<lambda>path rows w. Some (w\<lparr>files := AList.update path rows (files w)\<rparr>)),
      close = Some\<rparr>"

definition blank :: browser where
  "blank = \<lparr>toggled = [], listed = None, pageno = 0, files = []\<rparr>"

definition tokyo :: site where
  \<comment> \<open>the scenario of the specification, with the region at position 17\<close>
  "tokyo =
     \<lparr>regions = replicate 17 ''Elsewhere'' @ [''Tokyo''],
      categories = [''Restaurant'', ''Cafe''],
      listing = [[[(''R1'', ''1 Ginza''), (''R2'', ''2 Ginza''), (''R3'', ''3 Ginza'')],
                  [(''R4'', ''4 Ginza'')]],
                 [[(''C1'', ''1 Ueno''), (''C2'', ''2 Ueno'')]]],
      page_labels = [''1'', ''2''],
      nulls = [],
      more_regions = True\<rparr>"

definition osaka :: site where
  \<comment> \<open>one region, one category, two pages of two rows\<close>
  "osaka =
     \<lparr>regions = [''Osaka''],
      categories = [''Bar''],
      listing = [[[(''B1'', ''1 Namba''), (''B2'', ''2 Namba'')],
                  [(''B3'', ''3 Namba''), (''B4'', ''4 Namba'')]]],
      page_labels = [''1'', ''2''],
      nulls = [],
      more_regions = True\<rparr>"

definition first_page :: browser where
  \<comment> \<open>the browser once the first category has been searched\<close>
  "first_page = \<lparr>toggled = [0], listed = Some 0, pageno = 0, files = []\<rparr>"

definition second_page :: browser where
  "second_page = \<lparr>toggled = [0], listed = Some 0, pageno = 1, files = []\<rparr>"

definition cafe_page :: browser where
  \<comment> \<open>the browser once the second category has been searched\<close>
  "cafe_page = \<lparr>toggled = [1], listed = Some 1, pageno = 0, files = []\<rparr>"

section \<open>Describing runs\<close>

definition written :: "'h event list \<Rightarrow> (string \<times> string option list list) list" where
  \<comment> \<open>the files a trace wrote, in order\<close>
  "written tr = concat (map (\<lambda>ev. case ev of WriteFile path rows \<Rightarrow> [(path, rows)] | _ \<Rightarrow> []) tr)"

definition next_events :: "'h event list" where
  \<comment> \<open>what one page transition adds to the trace\<close>
  "next_events =
     [PageClick ''#search_result_pagination li.next a'', WaitForSelector ''#search_result_lists'',
      WaitForTimeout 3000]"


definition page_after :: "('w, 'h) env \<Rightarrow> 'w \<Rightarrow> 'w option" where
  \<comment> \<open>the page that following the "next" link leads to, when the link is there and the
      click, the wait for the result list and the settle delay all succeed\<close>
  "page_after env w =
     (case query_first env w None ''#search_result_pagination li.next a'' of
        None \<Rightarrow> None
      | Some a \<Rightarrow>
          (case click env a w of
             None \<Rightarrow> None
           | Some w1 \<Rightarrow>
               (case waitForSelector env ''#search_result_lists'' w1 of
                  None \<Rightarrow> None
                | Some w2 \<Rightarrow> waitForTimeout env 3000 w2)))"

definition page_error :: "('w \<Rightarrow> error + 'r list) \<Rightarrow> ('w, 'h) env \<Rightarrow> 'w \<Rightarrow> error option" where
  \<comment> \<open>the error of reading page \<open>w\<close>: its page number first, then its rows with \<open>rd\<close>\<close>
  "page_error rd env w =
     (case getNowPagination env w of
        Inl e \<Rightarrow> Some e
      | Inr _ \<Rightarrow> (case rd w of Inl e \<Rightarrow> Some e | Inr _ \<Rightarrow> None))"

definition records_of :: "('w \<Rightarrow> error + 'r list) \<Rightarrow> 'w \<Rightarrow> 'r list" where
  "records_of rd w = (case rd w of Inl _ \<Rightarrow> [] | Inr rs \<Rightarrow> rs)"

fun paginated ::
  "('w \<Rightarrow> error + 'r list) \<Rightarrow> ('w, 'h) env \<Rightarrow> nat \<Rightarrow> 'w \<Rightarrow> 'w list \<Rightarrow> bool" where
  \<comment> \<open>\<open>w # ws\<close> are the pages of one result: each shows its number and \<open>N\<close> rows that
      \<open>rd\<close> extracts, each but the last has the "next" control, which leads to the page
      after it, and the last has none\<close>
  "paginated rd env N w [] =
     (page_error rd env w = None \<and>
      length (query env w None ''#search_result_lists .search_result_lists_details'') = N \<and>
      \<not> hasNextPageButton env w)"
| "paginated rd env N w (w' # ws) =
     (page_error rd env w = None \<and>
      length (query env w None ''#search_result_lists .search_result_lists_details'') = N \<and>
      hasNextPageButton env w \<and> page_after env w = Some w' \<and> paginated rd env N w' ws)"








definition to_store :: "merchant \<Rightarrow> store" where
  "to_store m = \<lparr>store.name = Some (name m), store.address = Some (address m), store.genre = Some (genre m)\<rparr>"


declare getMerchant_while.simps [code]

declare pickStores_while.simps [code]

section \<open>Sequencing and the pagination loop\<close>

lemma and_then_Inr: "m s = (Inr x, s') \<Longrightarrow> and_then m f s = f x s'"
  by (simp add: and_then_def)

lemma and_then_Inl: "m s = (Inl e, s') \<Longrightarrow> and_then m f s = (Inl e, s')"
  by (simp add: and_then_def)

lemma and_run_Inr: "m s = (Inr x, s') \<Longrightarrow> and_run m f s = f x s'"
  by (simp add: and_run_def)

lemma and_run_Inl: "m s = (Inl e, s') \<Longrightarrow> and_run m f s = Some (Inl e, s')"
  by (simp add: and_run_def)

lemma run_then_Inr: "m s = Some (Inr x, s') \<Longrightarrow> run_then m f s = f x s'"
  by (simp add: run_then_def)

lemma run_then_Inl: "m s = Some (Inl e, s') \<Longrightarrow> run_then m f s = Some (Inl e, s')"
  by (simp add: run_then_def)

lemma transition_page_after:
  "page_after env w = Some w' \<Longrightarrow>
   searchResultNextPageToTransition env (w, tr) = (Inr (), (w', tr @ next_events))"
  by (auto simp: page_after_def searchResultNextPageToTransition_def and_then_def page_click_def
      wait_for_selector_def wait_for_timeout_def action_def next_events_def
      split: option.splits)

lemma getMerchant_body_last:
  "page_error (pickedMerchants env g) env w = None \<Longrightarrow> \<not> hasNextPageButton env w \<Longrightarrow>
   getMerchant_body env g acc (w, tr) =
     (Inr (acc @ records_of (pickedMerchants env g) w, False), (w, tr))"
  by (auto simp: page_error_def getMerchant_body_def and_then_def reading_def records_of_def
      split: sum.splits)

lemma getMerchant_body_next:
  "page_error (pickedMerchants env g) env w = None \<Longrightarrow> hasNextPageButton env w \<Longrightarrow>
   page_after env w = Some w' \<Longrightarrow>
   getMerchant_body env g acc (w, tr) =
     (Inr (acc @ records_of (pickedMerchants env g) w, True), (w', tr @ next_events))"
  by (auto simp: page_error_def getMerchant_body_def and_then_def reading_def records_of_def
      transition_page_after split: sum.splits)


lemma getMerchant_while_paginated:
  "paginated (pickedMerchants env g) env N w ws \<Longrightarrow>
   getMerchant_while env g True acc (w, tr) =
     Some (Inr (acc @ concat (map (records_of (pickedMerchants env g)) (w # ws))),
           (last (w # ws), tr @ concat (replicate (length ws) next_events)))"
proof (induction ws arbitrary: w acc tr)
  case Nil
  then show ?case
    by (subst getMerchant_while.simps, subst getMerchant_while.simps) (simp add: getMerchant_body_last)
next
  case (Cons w' ws)
  from Cons.prems have step: "getMerchant_body env g acc (w, tr) =
      (Inr (acc @ records_of (pickedMerchants env g) w, True), (w', tr @ next_events))"
    and rest: "paginated (pickedMerchants env g) env N w' ws"
    by (simp_all add: getMerchant_body_next)
  show ?case
    by (subst getMerchant_while.simps) (simp add: step Cons.IH[OF rest])
qed


lemma promise_all_length: "promise_all rs = Inr xs \<Longrightarrow> length xs = length rs"
  by (induction rs arbitrary: xs rule: promise_all.induct) (auto split: sum.splits)

lemma paginated_length:
  "paginated rd env N w ws \<Longrightarrow> (\<And>w rs. rd w = Inr rs \<Longrightarrow> length rs = length (query env w None ''#search_result_lists .search_result_lists_details'')) \<Longrightarrow>
   length (concat (map (records_of rd) (w # ws))) = Suc (length ws) * N"
proof (induction ws arbitrary: w)
  case Nil
  then show ?case by (auto simp: records_of_def page_error_def split: sum.splits)
next
  case (Cons w' ws)
  from Cons.prems(1) have "length (records_of rd w) = N"
    using Cons.prems(2) by (auto simp: records_of_def page_error_def split: sum.splits)
  moreover from Cons.prems have "length (concat (map (records_of rd) (w' # ws))) = Suc (length ws) * N"
    by (intro Cons.IH) auto
  ultimately show ?case by simp
qed

subsection \<open>The same loop in \<^verbatim>\<open>app.ts\<close>\<close>

lemma pickCurrentPageNumber_eq: "pickCurrentPageNumber env w = getNowPagination env w"
  by (simp add: pickCurrentPageNumber_def getNowPagination_def)

lemma pickStores_body_last:
  "page_error (pickedStores env g) env w = None \<Longrightarrow> \<not> hasNextPageButton env w \<Longrightarrow>
   pickStores_body env g acc (w, tr) =
     (Inr (acc @ records_of (pickedStores env g) w, False), (w, tr))"
  by (auto simp: page_error_def pickStores_body_def and_then_def reading_def records_of_def
      pickCurrentPageNumber_eq split: sum.splits)

lemma pickStores_body_next:
  "page_error (pickedStores env g) env w = None \<Longrightarrow> hasNextPageButton env w \<Longrightarrow>
   page_after env w = Some w' \<Longrightarrow>
   pickStores_body env g acc (w, tr) =
     (Inr (acc @ records_of (pickedStores env g) w, True), (w', tr @ next_events))"
  by (auto simp: page_error_def pickStores_body_def and_then_def reading_def records_of_def
      pickCurrentPageNumber_eq page_after_def clickNextPageButton_def page_click_def
      wait_for_selector_def wait_for_timeout_def action_def next_events_def
      split: sum.splits option.splits)


lemma pickStores_while_paginated:
  "paginated (pickedStores env g) env N w ws \<Longrightarrow>
   pickStores_while env g True acc (w, tr) =
     Some (Inr (acc @ concat (map (records_of (pickedStores env g)) (w # ws))),
           (last (w # ws), tr @ concat (replicate (length ws) next_events)))"
proof (induction ws arbitrary: w acc tr)
  case Nil
  then show ?case
    by (subst pickStores_while.simps, subst pickStores_while.simps) (simp add: pickStores_body_last)
next
  case (Cons w' ws)
  from Cons.prems have step: "pickStores_body env g acc (w, tr) =
      (Inr (acc @ records_of (pickedStores env g) w, True), (w', tr @ next_events))"
    and rest: "paginated (pickedStores env g) env N w' ws"
    by (simp_all add: pickStores_body_next)
  show ?case
    by (subst pickStores_while.simps) (simp add: step Cons.IH[OF rest])
qed


lemma paginated_first: "paginated rd env N w ws \<Longrightarrow> page_error rd env w = None"
  by (cases ws) simp_all

lemma page_error_None_read: "page_error rd env w = None \<Longrightarrow> \<exists>n. getNowPagination env w = Inr n"
  by (auto simp: page_error_def split: sum.splits)

lemma getMerchant_paginated:
  assumes "paginated (pickedMerchants env g) env N w ws"
  shows "getMerchantFromSearchResult env g (w, tr) =
     Some (Inr (concat (map (records_of (pickedMerchants env g)) (w # ws))),
           (last (w # ws), tr @ concat (replicate (length ws) next_events)))"
proof -
  from page_error_None_read[OF paginated_first[OF assms]]
  obtain n where "getNowPagination env w = Inr n" ..
  then show ?thesis
    using getMerchant_while_paginated[OF assms, of "[]" tr]
    by (simp add: getMerchantFromSearchResult_def and_run_def reading_def)
qed

lemma pickStores_paginated:
  assumes "paginated (pickedStores env g) env N w ws"
  shows "pickStores env g (w, tr) =
     Some (Inr (concat (map (records_of (pickedStores env g)) (w # ws))),
           (last (w # ws), tr @ concat (replicate (length ws) next_events)))"
proof -
  from page_error_None_read[OF paginated_first[OF assms]]
  obtain n where "getNowPagination env w = Inr n" ..
  then show ?thesis
    using pickStores_while_paginated[OF assms, of "[]" tr]
    by (simp add: pickStores_def and_run_def reading_def pickCurrentPageNumber_eq)
qed

lemma pickedMerchants_length:
  "pickedMerchants env g w = Inr rs \<Longrightarrow>
   length rs = length (query env w None ''#search_result_lists .search_result_lists_details'')"
  by (auto simp: pickedMerchants_def dest: promise_all_length)

lemma pickedStores_length:
  "pickedStores env g w = Inr rs \<Longrightarrow>
   length rs = length (query env w None ''#search_result_lists .search_result_lists_details'')"
  by (auto simp: pickedStores_def dest: promise_all_length)

lemma promise_all_nth: "promise_all rs = Inr xs \<Longrightarrow> i < length rs \<Longrightarrow> rs ! i = Inr (xs ! i)"
proof (induction rs arbitrary: xs i rule: promise_all.induct)
  case 1
  then show ?case by simp
next
  case (2 e rs)
  then show ?case by simp
next
  case (3 x rs)
  then show ?case by (cases i) (auto split: sum.splits)
qed

lemma pickedMerchants_nth:
  "pickedMerchants env g w = Inr rs \<Longrightarrow>
   i < length (query env w None ''#search_result_lists .search_result_lists_details'') \<Longrightarrow>
   convertDetailToMerchantObj env w
     (query env w None ''#search_result_lists .search_result_lists_details'' ! i) g = Inr (rs ! i)"
  unfolding pickedMerchants_def by (drule promise_all_nth[where i = i]) simp_all

lemma pickedStores_nth:
  "pickedStores env g w = Inr rs \<Longrightarrow>
   i < length (query env w None ''#search_result_lists .search_result_lists_details'') \<Longrightarrow>
   detailToStoreObj env w
     (query env w None ''#search_result_lists .search_result_lists_details'' ! i) g = Inr (rs ! i)"
  unfolding pickedStores_def by (drule promise_all_nth[where i = i]) simp_all

lemma convertDetailToMerchantObj_fields:
  "convertDetailToMerchantObj env w d g = Inr r \<Longrightarrow>
   eval_first env w (Some d) ''h4'' (textContent env w) = Inr (Some (name r)) \<and>
   eval_first env w (Some d) ''.search_result_lists_address'' (textContent env w) = Inr (Some (address r)) \<and>
   genre r = g"
  by (auto simp: convertDetailToMerchantObj_def split: sum.splits option.splits)

lemma detailToStoreObj_fields:
  "detailToStoreObj env w d g = Inr r \<Longrightarrow>
   eval_first env w (Some d) ''h4'' (textContent env w) = Inr (store.name r) \<and>
   eval_first env w (Some d) ''.search_result_lists_address'' (textContent env w) = Inr (store.address r) \<and>
   store.genre r = g"
  by (auto simp: detailToStoreObj_def split: sum.splits)

lemma page_error_None_rows: "page_error rd env w = None \<Longrightarrow> rd w = Inr (records_of rd w)"
  by (auto simp: page_error_def records_of_def split: sum.splits)

lemma getMerchant_single_page:
  assumes "page_error (pickedMerchants env g) env w = None" "\<not> hasNextPageButton env w"
  shows "getMerchantFromSearchResult env g (w, tr) =
           Some (Inr (records_of (pickedMerchants env g) w), (w, tr))"
    and "length (records_of (pickedMerchants env g) w) =
           length (query env w None ''#search_result_lists .search_result_lists_details'')"
    and "i < length (records_of (pickedMerchants env g) w) \<Longrightarrow>
           eval_first env w (Some (query env w None ''#search_result_lists .search_result_lists_details'' ! i))
             ''h4'' (textContent env w) = Inr (Some (name (records_of (pickedMerchants env g) w ! i))) \<and>
           eval_first env w (Some (query env w None ''#search_result_lists .search_result_lists_details'' ! i))
             ''.search_result_lists_address'' (textContent env w) =
             Inr (Some (address (records_of (pickedMerchants env g) w ! i))) \<and>
           genre (records_of (pickedMerchants env g) w ! i) = g"
proof -
  let ?rows = "query env w None ''#search_result_lists .search_result_lists_details''"
  let ?rs = "records_of (pickedMerchants env g) w"
  from assms have "paginated (pickedMerchants env g) env (length ?rows) w []" by simp
  from getMerchant_paginated[OF this, of tr]
  show "getMerchantFromSearchResult env g (w, tr) = Some (Inr ?rs, (w, tr))" by simp
  have rd: "pickedMerchants env g w = Inr ?rs"
    using page_error_None_rows[of "pickedMerchants env g" env w] assms(1) by simp
  show len: "length ?rs = length ?rows" by (rule pickedMerchants_length[OF rd])
  assume "i < length ?rs"
  with len have "i < length ?rows" by simp
  from convertDetailToMerchantObj_fields[OF pickedMerchants_nth[OF rd this]]
  show "eval_first env w (Some (?rows ! i)) ''h4'' (textContent env w) = Inr (Some (name (?rs ! i))) \<and>
        eval_first env w (Some (?rows ! i)) ''.search_result_lists_address'' (textContent env w) =
          Inr (Some (address (?rs ! i))) \<and>
        genre (?rs ! i) = g" .
qed

lemma pickStores_single_page:
  assumes "page_error (pickedStores env g) env w = None" "\<not> hasNextPageButton env w"
  shows "pickStores env g (w, tr) = Some (Inr (records_of (pickedStores env g) w), (w, tr))"
    and "length (records_of (pickedStores env g) w) =
           length (query env w None ''#search_result_lists .search_result_lists_details'')"
    and "i < length (records_of (pickedStores env g) w) \<Longrightarrow>
           eval_first env w (Some (query env w None ''#search_result_lists .search_result_lists_details'' ! i))
             ''h4'' (textContent env w) = Inr (store.name (records_of (pickedStores env g) w ! i)) \<and>
           eval_first env w (Some (query env w None ''#search_result_lists .search_result_lists_details'' ! i))
             ''.search_result_lists_address'' (textContent env w) =
             Inr (store.address (records_of (pickedStores env g) w ! i)) \<and>
           store.genre (records_of (pickedStores env g) w ! i) = g"
proof -
  let ?rows = "query env w None ''#search_result_lists .search_result_lists_details''"
  let ?rs = "records_of (pickedStores env g) w"
  from assms have "paginated (pickedStores env g) env (length ?rows) w []" by simp
  from pickStores_paginated[OF this, of tr]
  show "pickStores env g (w, tr) = Some (Inr ?rs, (w, tr))" by simp
  have rd: "pickedStores env g w = Inr ?rs"
    using page_error_None_rows[of "pickedStores env g" env w] assms(1) by simp
  show len: "length ?rs = length ?rows" by (rule pickedStores_length[OF rd])
  assume "i < length ?rs"
  with len have "i < length ?rows" by simp
  from detailToStoreObj_fields[OF pickedStores_nth[OF rd this]]
  show "eval_first env w (Some (?rows ! i)) ''h4'' (textContent env w) = Inr (store.name (?rs ! i)) \<and>
        eval_first env w (Some (?rows ! i)) ''.search_result_lists_address'' (textContent env w) =
          Inr (store.address (?rs ! i)) \<and>
        store.genre (?rs ! i) = g" .
qed

subsection \<open>What a run adds to the trace\<close>
























subsection \<open>The loop over the categories\<close>










section \<open>The two programs side by side\<close>

subsection \<open>On a site without null text and with every link\<close>

lemma store_row_to_store: "map store_row (map to_store ms) = map merchant_row ms"
  by (simp add: store_row_def to_store_def merchant_row_def)























subsection \<open>With no assumption on the site\<close>























section \<open>Decimal text under \<^verbatim>\<open>Number\<close>\<close>











section \<open>The page navigator\<close>




section \<open>The record extractor\<close>

text \<open>
  C4, as the code has it. In the revised program (\<open>convertDetailToMerchantObj\<close>) a null
  title fails with the error that names the merchant name, a null address with the
  error that names the address, and two non-null texts give the record of exactly
  these texts and the category passed in. A row without the title or the address node
  fails in both programs. \<^verbatim>\<open>app.ts\<close> (\<open>detailToStoreObj\<close>) has no null check: whenever
  both nodes exist it returns a record that holds what was read, null included.
\<close>

theorem convertDetailToMerchantObj_result:
  "(query env w (Some d) ''h4'' = [] \<longrightarrow>
      convertDetailToMerchantObj env w d g = Inl (NoElement ''h4'') \<and>
      detailToStoreObj env w d g' = Inl (NoElement ''h4'')) \<and>
   (\<forall>t ts. query env w (Some d) ''h4'' = t # ts \<longrightarrow>
      (textContent env w t = None \<longrightarrow> convertDetailToMerchantObj env w d g = Inl MerchantNameError) \<and>
      (query env w (Some d) ''.search_result_lists_address'' = [] \<longrightarrow>
         detailToStoreObj env w d g' = Inl (NoElement ''.search_result_lists_address'') \<and>
         (textContent env w t \<noteq> None \<longrightarrow>
            convertDetailToMerchantObj env w d g = Inl (NoElement ''.search_result_lists_address''))) \<and>
      (\<forall>a as. query env w (Some d) ''.search_result_lists_address'' = a # as \<longrightarrow>
         detailToStoreObj env w d g' =
           Inr \<lparr>store.name = textContent env w t, store.address = textContent env w a, store.genre = g'\<rparr> \<and>
         (\<forall>n. textContent env w t = Some n \<longrightarrow>
            (textContent env w a = None \<longrightarrow> convertDetailToMerchantObj env w d g = Inl AddressError) \<and>
            (\<forall>ad. textContent env w a = Some ad \<longrightarrow>
               convertDetailToMerchantObj env w d g = Inr \<lparr>name = n, address = ad, genre = g\<rparr>))))"
  by (auto simp: convertDetailToMerchantObj_def detailToStoreObj_def eval_first_def query_first_def)

text \<open>The first row of the example site, and the same row with a null address.\<close>

theorem convertDetailToMerchantObj_result_witness:
  "query (site_env tokyo) blank (Some (Detail 0 0 0)) ''h4'' = [Title 0 0 0] \<and>
   textContent (site_env tokyo) blank (Title 0 0 0) = Some ''R1'' \<and>
   convertDetailToMerchantObj (site_env tokyo) blank (Detail 0 0 0) ''Restaurant'' =
     Inr \<lparr>name = ''R1'', address = ''1 Ginza'', genre = ''Restaurant''\<rparr> \<and>
   textContent (site_env (tokyo\<lparr>nulls := [Address 0 0 0]\<rparr>)) blank (Address 0 0 0) = None \<and>
   convertDetailToMerchantObj (site_env (tokyo\<lparr>nulls := [Address 0 0 0]\<rparr>)) blank (Detail 0 0 0) ''Restaurant'' =
     Inl AddressError"
proof -
  have q: "query (site_env c) blank (Some (Detail 0 0 0)) ''h4'' = [Title 0 0 0]"
    "query (site_env c) blank (Some (Detail 0 0 0)) ''.search_result_lists_address'' = [Address 0 0 0]"
    for c
    by (simp_all add: site_env_def site_query_def)
  have t: "textContent (site_env tokyo) blank (Title 0 0 0) = Some ''R1''"
    "textContent (site_env tokyo) blank (Address 0 0 0) = Some ''1 Ginza''"
    "textContent (site_env (tokyo\<lparr>nulls := [Address 0 0 0]\<rparr>)) blank (Title 0 0 0) = Some ''R1''"
    "textContent (site_env (tokyo\<lparr>nulls := [Address 0 0 0]\<rparr>)) blank (Address 0 0 0) = None"
    by (simp_all add: site_env_def site_text_def tokyo_def)
  from convertDetailToMerchantObj_result
      [of "site_env tokyo" blank "Detail 0 0 0" "''Restaurant''"] q t
  have "convertDetailToMerchantObj (site_env tokyo) blank (Detail 0 0 0) ''Restaurant'' =
          Inr \<lparr>name = ''R1'', address = ''1 Ginza'', genre = ''Restaurant''\<rparr>"
    by simp
  moreover from convertDetailToMerchantObj_result
      [of "site_env (tokyo\<lparr>nulls := [Address 0 0 0]\<rparr>)" blank "Detail 0 0 0" "''Restaurant''"] q t
  have "convertDetailToMerchantObj (site_env (tokyo\<lparr>nulls := [Address 0 0 0]\<rparr>)) blank
          (Detail 0 0 0) ''Restaurant'' = Inl AddressError"
    by simp
  ultimately show ?thesis using q t by simp
qed

text \<open>
  C4 as stated fails for \<^verbatim>\<open>app.ts\<close>: on a row whose title reads as null,
  \<open>detailToStoreObj\<close> returns a record with a null name instead of failing.
\<close>

theorem detailToStoreObj_null_title:
  "textContent (site_env (tokyo\<lparr>nulls := [Title 0 0 0]\<rparr>)) blank (Title 0 0 0) = None \<and>
   detailToStoreObj (site_env (tokyo\<lparr>nulls := [Title 0 0 0]\<rparr>)) blank (Detail 0 0 0) (Some ''Restaurant'') =
     Inr \<lparr>store.name = None, store.address = Some ''1 Ginza'', store.genre = Some ''Restaurant''\<rparr>"
  by (simp add: detailToStoreObj_def eval_first_def query_first_def
      site_env_def site_query_def site_text_def tokyo_def blank_def)

section \<open>The result paginator\<close>

text \<open>
  C1. When the result is a sequence of K pages \<open>w # ws\<close> of N rows each, every page shows
  its page number and rows that can be extracted, every page but the last has the
  "next" control and following it leads to the page after, and the last page has no
  "next" control, then collecting (\<open>getMerchantFromSearchResult\<close>, and \<open>pickStores\<close> in
  \<^verbatim>\<open>app.ts\<close>) returns: its result is the records of the pages in page order, K times N of
  them, and the browser is left on the last page after K - 1 transitions.
\<close>

theorem collectAll_paginated:
  "(paginated (pickedMerchants env g) env N w ws \<longrightarrow>
      getMerchantFromSearchResult env g (w, tr) =
        Some (Inr (concat (map (records_of (pickedMerchants env g)) (w # ws))),
              (last (w # ws), tr @ concat (replicate (length ws) next_events))) \<and>
      length (concat (map (records_of (pickedMerchants env g)) (w # ws))) = Suc (length ws) * N) \<and>
   (paginated (pickedStores env g') env N w ws \<longrightarrow>
      pickStores env g' (w, tr) =
        Some (Inr (concat (map (records_of (pickedStores env g')) (w # ws))),
              (last (w # ws), tr @ concat (replicate (length ws) next_events))) \<and>
      length (concat (map (records_of (pickedStores env g')) (w # ws))) = Suc (length ws) * N)"
proof (intro conjI impI)
  assume p: "paginated (pickedMerchants env g) env N w ws"
  then show "getMerchantFromSearchResult env g (w, tr) =
        Some (Inr (concat (map (records_of (pickedMerchants env g)) (w # ws))),
              (last (w # ws), tr @ concat (replicate (length ws) next_events)))"
    by (rule getMerchant_paginated)
  from p show "length (concat (map (records_of (pickedMerchants env g)) (w # ws))) = Suc (length ws) * N"
    by (rule paginated_length) (rule pickedMerchants_length)
next
  assume p: "paginated (pickedStores env g') env N w ws"
  then show "pickStores env g' (w, tr) =
        Some (Inr (concat (map (records_of (pickedStores env g')) (w # ws))),
              (last (w # ws), tr @ concat (replicate (length ws) next_events)))"
    by (rule pickStores_paginated)
  from p show "length (concat (map (records_of (pickedStores env g')) (w # ws))) = Suc (length ws) * N"
    by (rule paginated_length) (rule pickedStores_length)
qed

text \<open>Two pages of two rows: four records, in page order.\<close>

theorem collectAll_paginated_witness:
  "paginated (pickedMerchants (site_env osaka) ''Bar'') (site_env osaka) 2 first_page [second_page] \<and>
   getMerchantFromSearchResult (site_env osaka) ''Bar'' (first_page, []) =
     Some (Inr [\<lparr>name = ''B1'', address = ''1 Namba'', genre = ''Bar''\<rparr>,
                \<lparr>name = ''B2'', address = ''2 Namba'', genre = ''Bar''\<rparr>,
                \<lparr>name = ''B3'', address = ''3 Namba'', genre = ''Bar''\<rparr>,
                \<lparr>name = ''B4'', address = ''4 Namba'', genre = ''Bar''\<rparr>],
           (second_page, next_events))"
proof -
  have p: "paginated (pickedMerchants (site_env osaka) ''Bar'') (site_env osaka) 2 first_page [second_page]"
    by code_simp
  have r: "concat (map (records_of (pickedMerchants (site_env osaka) ''Bar'')) [first_page, second_page]) =
     [\<lparr>name = ''B1'', address = ''1 Namba'', genre = ''Bar''\<rparr>,
      \<lparr>name = ''B2'', address = ''2 Namba'', genre = ''Bar''\<rparr>,
      \<lparr>name = ''B3'', address = ''3 Namba'', genre = ''Bar''\<rparr>,
      \<lparr>name = ''B4'', address = ''4 Namba'', genre = ''Bar''\<rparr>]"
    by code_simp
  from collectAll_paginated [of "site_env osaka" "''Bar''" 2 first_page "[second_page]" "[]"] p r
  show ?thesis by simp
qed

text \<open>
  C6, as the code has it. On a page that shows its page number, whose N rows can all be
  extracted and that has no "next" control, collecting returns exactly N records and
  leaves the browser where it was. Record i carries the title and the address text of
  row i and the category passed in. In the revised program these texts are non-null,
  checked by the extractor, but nothing checks that they are non-empty; in \<^verbatim>\<open>app.ts\<close>
  they are whatever was read, null included.
\<close>

theorem collectAll_single_page:
  "(page_error (pickedMerchants env g) env w = None \<and> \<not> hasNextPageButton env w \<longrightarrow>
      (\<exists>rs. getMerchantFromSearchResult env g (w, tr) = Some (Inr rs, (w, tr)) \<and>
         length rs = length (query env w None ''#search_result_lists .search_result_lists_details'') \<and>
         (\<forall>i < length rs.
            eval_first env w (Some (query env w None ''#search_result_lists .search_result_lists_details'' ! i))
              ''h4'' (textContent env w) = Inr (Some (name (rs ! i))) \<and>
            eval_first env w (Some (query env w None ''#search_result_lists .search_result_lists_details'' ! i))
              ''.search_result_lists_address'' (textContent env w) = Inr (Some (address (rs ! i))) \<and>
            genre (rs ! i) = g))) \<and>
   (page_error (pickedStores env g') env w = None \<and> \<not> hasNextPageButton env w \<longrightarrow>
      (\<exists>rs. pickStores env g' (w, tr) = Some (Inr rs, (w, tr)) \<and>
         length rs = length (query env w None ''#search_result_lists .search_result_lists_details'') \<and>
         (\<forall>i < length rs.
            eval_first env w (Some (query env w None ''#search_result_lists .search_result_lists_details'' ! i))
              ''h4'' (textContent env w) = Inr (store.name (rs ! i)) \<and>
            eval_first env w (Some (query env w None ''#search_result_lists .search_result_lists_details'' ! i))
              ''.search_result_lists_address'' (textContent env w) = Inr (store.address (rs ! i)) \<and>
            store.genre (rs ! i) = g')))"
proof (intro conjI impI)
  assume a: "page_error (pickedMerchants env g) env w = None \<and> \<not> hasNextPageButton env w"
  show "\<exists>rs. getMerchantFromSearchResult env g (w, tr) = Some (Inr rs, (w, tr)) \<and>
         length rs = length (query env w None ''#search_result_lists .search_result_lists_details'') \<and>
         (\<forall>i < length rs.
            eval_first env w (Some (query env w None ''#search_result_lists .search_result_lists_details'' ! i))
              ''h4'' (textContent env w) = Inr (Some (name (rs ! i))) \<and>
            eval_first env w (Some (query env w None ''#search_result_lists .search_result_lists_details'' ! i))
              ''.search_result_lists_address'' (textContent env w) = Inr (Some (address (rs ! i))) \<and>
            genre (rs ! i) = g)"
    by (rule exI[of _ "records_of (pickedMerchants env g) w"], intro conjI allI impI)
      (use a getMerchant_single_page[of env g w] in simp_all)
next
  assume a: "page_error (pickedStores env g') env w = None \<and> \<not> hasNextPageButton env w"
  show "\<exists>rs. pickStores env g' (w, tr) = Some (Inr rs, (w, tr)) \<and>
         length rs = length (query env w None ''#search_result_lists .search_result_lists_details'') \<and>
         (\<forall>i < length rs.
            eval_first env w (Some (query env w None ''#search_result_lists .search_result_lists_details'' ! i))
              ''h4'' (textContent env w) = Inr (store.name (rs ! i)) \<and>
            eval_first env w (Some (query env w None ''#search_result_lists .search_result_lists_details'' ! i))
              ''.search_result_lists_address'' (textContent env w) = Inr (store.address (rs ! i)) \<and>
            store.genre (rs ! i) = g')"
    by (rule exI[of _ "records_of (pickedStores env g') w"], intro conjI allI impI)
      (use a pickStores_single_page[of env g' w] in simp_all)
qed

text \<open>The page of the second category of the example site: two rows, no "next" control.\<close>

theorem collectAll_single_page_witness:
  "page_error (pickedMerchants (site_env tokyo) ''Cafe'') (site_env tokyo) cafe_page = None \<and>
   \<not> hasNextPageButton (site_env tokyo) cafe_page \<and>
   (\<exists>rs. getMerchantFromSearchResult (site_env tokyo) ''Cafe'' (cafe_page, []) = Some (Inr rs, (cafe_page, [])) \<and>
      length rs = 2 \<and> genre (rs ! 1) = ''Cafe'')"
proof -
  have h: "page_error (pickedMerchants (site_env tokyo) ''Cafe'') (site_env tokyo) cafe_page = None \<and>
      \<not> hasNextPageButton (site_env tokyo) cafe_page"
    by code_simp
  have n: "length (query (site_env tokyo) cafe_page None ''#search_result_lists .search_result_lists_details'') = 2"
    by code_simp
  from collectAll_single_page [of "site_env tokyo" "''Cafe''" cafe_page "[]" None] h
  obtain rs where
    "getMerchantFromSearchResult (site_env tokyo) ''Cafe'' (cafe_page, []) = Some (Inr rs, (cafe_page, []))"
    "length rs = length (query (site_env tokyo) cafe_page None ''#search_result_lists .search_result_lists_details'')"
    "\<forall>i < length rs. genre (rs ! i) = ''Cafe''"
    by blast
  with h n show ?thesis by auto
qed

text \<open>
  C6 as stated fails: a row whose title is the empty string is extracted, and the record
  returned has an empty name.
\<close>

theorem collectAll_empty_name:
  "\<not> hasNextPageButton (site_env (tokyo\<lparr>listing := [[[('''', ''1 Ginza'')]]]\<rparr>)) first_page \<and>
   getMerchantFromSearchResult (site_env (tokyo\<lparr>listing := [[[('''', ''1 Ginza'')]]]\<rparr>)) ''Restaurant''
     (first_page, []) =
     Some (Inr [\<lparr>name = '''', address = ''1 Ginza'', genre = ''Restaurant''\<rparr>], (first_page, []))"
  by code_simp



section \<open>The choice of the region\<close>

text \<open>
  C10. \<open>main\<close> takes the element at position 17 of the regions found on the starting page
  and checks no bound. When the browser starts, the page loads and it lists 17 regions or
  fewer, the element is \<^verbatim>\<open>undefined\<close>: \<open>createMaps\<close> fails on its first statement with a
  \<^verbatim>\<open>TypeError\<close>, in both programs, and launching, opening the page and navigating are
  all that has happened: no file has been written.
\<close>

theorem main_region_out_of_range:
  "launch env w = Some w1 \<and> newPage env w1 = Some w2 \<and>
   goto env ''https://www.jfcard.co.jp/shopinfo/use.php'' w2 = Some w3 \<and>
   length (query env w3 None ''.area_list.area_pref_list ul li ul li'') \<le> 17 \<longrightarrow>
   main env (w, tr) =
     Some (Inl TypeError, (w3, tr @ [Launch, NewPage, Goto ''https://www.jfcard.co.jp/shopinfo/use.php''])) \<and>
   main_app env (w, tr) =
     Some (Inl TypeError, (w3, tr @ [Launch, NewPage, Goto ''https://www.jfcard.co.jp/shopinfo/use.php''])) \<and>
   written (tr @ [Launch, NewPage, Goto ''https://www.jfcard.co.jp/shopinfo/use.php'']) = written tr"
  by (simp add: main_def main_app_def and_run_def action_def run_then_def index_def
      createMaps_def createMaps_begin_def createMaps_app_def createMaps_app_begin_def
      and_then_def reading_def getPrefecturesName_def written_def)

text \<open>A site that lists one region only.\<close>

theorem main_region_out_of_range_witness:
  "length (query (site_env osaka) blank None ''.area_list.area_pref_list ul li ul li'') = 1 \<and>
   main (site_env osaka) (blank, []) =
     Some (Inl TypeError, (blank, [Launch, NewPage, Goto ''https://www.jfcard.co.jp/shopinfo/use.php''])) \<and>
   main_app (site_env osaka) (blank, []) =
     Some (Inl TypeError, (blank, [Launch, NewPage, Goto ''https://www.jfcard.co.jp/shopinfo/use.php'']))"
proof -
  have a: "launch (site_env osaka) blank = Some blank" "newPage (site_env osaka) blank = Some blank"
    "goto (site_env osaka) ''https://www.jfcard.co.jp/shopinfo/use.php'' blank = Some blank"
    by (simp_all add: site_env_def)
  have n: "length (query (site_env osaka) blank None ''.area_list.area_pref_list ul li ul li'') = 1"
    by (simp add: site_env_def site_query_def osaka_def)
  from main_region_out_of_range [of "site_env osaka" blank blank blank blank "[]"] a n
  show ?thesis by simp
qed

section \<open>The category walker\<close>





section \<open>The region driver\<close>



section \<open>\<^verbatim>\<open>app.ts\<close> and its revision\<close>



end
